theory Spec2Isabelle
  imports Main "HOL-Library.Word" "HOL-Library.Sublist" "HOL-Library.Infinite_Set"
begin

unbundle bit_operations_syntax

section \<open>Python values and exceptions\<close>

text \<open>
  The functions of \<^verbatim>\<open>src/tba/util.py\<close> work on parsed JSON (\<^verbatim>\<open>json.loads\<close> of a response,
  \<^verbatim>\<open>request.data\<close>). A JSON object is an association list (a parsed object has no repeated
  key), a float is its 64-bit pattern. A Python \<^verbatim>\<open>str\<close> is a \<open>string\<close>: one \<open>char\<close> per
  code point, which restricts text to code points below 256.
\<close>

datatype json =
    JNull
  | JBool bool
  | JInt int
  | JFloat "64 word"
  | JStr string
  | JArr "json list"
  | JObj "(string \<times> json) list"

text \<open>Every \<^verbatim>\<open>raise\<close> of the source and of the library calls it makes is a value.\<close>

datatype pyerr =
    KeyError json
  | IndexError
  | TypeError
  | AttributeError
  | ValueError
  | Exception json
  | DoesNotExist
  | MultipleObjectsReturned
  | IntegrityError
  | LibraryError string

text \<open>\<^verbatim>\<open>d[k]\<close> with a string key: only a dict has string keys.\<close>

fun getitem_str :: "json \<Rightarrow> string \<Rightarrow> pyerr + json" where
  "getitem_str (JObj kvs) k =
     (case map_of kvs k of None \<Rightarrow> Inl (KeyError (JStr k)) | Some v \<Rightarrow> Inr v)"
| "getitem_str _ k = Inl TypeError"

text \<open>\<^verbatim>\<open>x[i]\<close> with a literal index \<open>i \<ge> 0\<close>: a list or a string is indexed, a parsed
  dict has no integer key, nothing else is subscriptable.\<close>

fun getitem_idx :: "json \<Rightarrow> nat \<Rightarrow> pyerr + json" where
  "getitem_idx (JArr xs) i = (if i < length xs then Inr (xs ! i) else Inl IndexError)"
| "getitem_idx (JStr s) i = (if i < length s then Inr (JStr [s ! i]) else Inl IndexError)"
| "getitem_idx (JObj kvs) i = Inl (KeyError (JInt (int i)))"
| "getitem_idx _ i = Inl TypeError"

text \<open>\<^verbatim>\<open>d.get(k, default)\<close>: only a dict has the method.\<close>

fun dict_get :: "json \<Rightarrow> string \<Rightarrow> json \<Rightarrow> pyerr + json" where
  "dict_get (JObj kvs) k dflt = (case map_of kvs k of None \<Rightarrow> Inr dflt | Some v \<Rightarrow> Inr v)"
| "dict_get _ k dflt = Inl AttributeError"

text \<open>\<^verbatim>\<open>len(x)\<close>.\<close>

fun py_len :: "json \<Rightarrow> pyerr + nat" where
  "py_len (JArr xs) = Inr (length xs)"
| "py_len (JObj kvs) = Inr (length kvs)"
| "py_len (JStr s) = Inr (length s)"
| "py_len _ = Inl TypeError"

text \<open>The truth value of \<^verbatim>\<open>if x\<close>; a float is false when it is \<open>0.0\<close> or \<open>-0.0\<close>.\<close>

fun truthy :: "json \<Rightarrow> bool" where
  "truthy JNull = False"
| "truthy (JBool b) = b"
| "truthy (JInt n) = (n \<noteq> 0)"
| "truthy (JFloat w) = (w AND mask 63 \<noteq> 0)"
| "truthy (JStr s) = (s \<noteq> [])"
| "truthy (JArr xs) = (xs \<noteq> [])"
| "truthy (JObj kvs) = (kvs \<noteq> [])"

text \<open>\<^verbatim>\<open>for x in v\<close>: a list gives its elements, a dict its keys, a string its characters.\<close>

fun py_iter :: "json \<Rightarrow> pyerr + json list" where
  "py_iter (JArr xs) = Inr xs"
| "py_iter (JObj kvs) = Inr (map (\<lambda>kv. JStr (fst kv)) kvs)"
| "py_iter (JStr s) = Inr (map (\<lambda>c. JStr [c]) s)"
| "py_iter _ = Inl TypeError"

text \<open>\<^verbatim>\<open>"literal" + v\<close>: string concatenation raises TypeError unless \<open>v\<close> is a string.\<close>

fun str_concat :: "string \<Rightarrow> json \<Rightarrow> pyerr + string" where
  "str_concat a (JStr s) = Inr (a @ s)"
| "str_concat a _ = Inl TypeError"

text \<open>
  \<^verbatim>\<open>s.replace(old, new)\<close>: the occurrences of \<open>old\<close> are found in one scan from the left and
  do not overlap; for an empty \<open>old\<close>, \<open>new\<close> is put around every character.
\<close>

function str_replace :: "string \<Rightarrow> string \<Rightarrow> string \<Rightarrow> string" where
  "str_replace old new [] = (if old = [] then new else [])"
| "str_replace old new (c # cs) =
     (if old = [] then new @ c # str_replace old new cs
      else if prefix old (c # cs)
        then new @ str_replace old new (drop (length old) (c # cs))
      else c # str_replace old new cs)"
  by pat_completeness auto
termination
  by (relation "measure (\<lambda>(old, new, s). length s)") auto

text \<open>\<^verbatim>\<open>s.encode("utf-8")\<close> for code points below 256.\<close>

definition encode_utf8 :: "string \<Rightarrow> string" where
  "encode_utf8 s =
     concat (map (\<lambda>c. if of_char c < (128::nat) then [c]
                       else [char_of (192 + (of_char c :: nat) div 64),
                             char_of (128 + (of_char c :: nat) mod 64)]) s)"

text \<open>\<^verbatim>\<open>.hexdigest()\<close> of a 256-bit digest: 64 lower-case hexadecimal digits.\<close>

definition hex_digit :: "nat \<Rightarrow> char" where
  "hex_digit n = ''0123456789abcdef'' ! (n mod 16)"

definition hexdigest :: "256 word \<Rightarrow> string" where
  "hexdigest w = map (\<lambda>i. hex_digit (unat (drop_bit (4 * (63 - i)) w AND 15))) [0..<64]"

section \<open>Persistent records\<close>

type_synonym datetime = int

text \<open>
  Modelled from the spec: the Django models \<^verbatim>\<open>Event\<close>, \<^verbatim>\<open>Team\<close>, \<^verbatim>\<open>CompetitionLevel\<close>,
  \<^verbatim>\<open>Match\<close> and \<^verbatim>\<open>Message\<close> (\<^verbatim>\<open>scouting/models.py\<close>, \<^verbatim>\<open>tba/models.py\<close>) are not among the
  sources; a row has the fields that \<^verbatim>\<open>tba/util.py\<close> and the fixtures of \<^verbatim>\<open>tests/tba\<close> read
  or assign. A table is the list of its rows, a row's primary key is its position (rows are
  never deleted, only marked void), and a foreign key or a many-to-many link holds
  positions. A \<open>datetime\<close> is an aware datetime, as its POSIX timestamp. Key columns hold the
  prepared value (a string or an integer); every other column holds the value as assigned.
\<close>

record event =
  season :: nat
  event_cd :: string
  event_nm :: json
  date_st :: datetime
  date_end :: datetime
  event_url :: json
  gmaps_url :: json
  address :: json
  city :: json
  state_prov :: json
  postal_code :: json
  location_name :: json
  webcast_url :: json
  timezone :: json
  current :: string
  competition_page_active :: string
  void_ind :: string

record team =
  team_no :: int
  team_nm :: json
  team_void_ind :: string

record competition_level =
  comp_lvl_typ :: string
  comp_lvl_typ_nm :: json
  comp_lvl_void_ind :: string

record match_row =
  match_key :: string
  match_number :: json
  match_event :: nat
  red_one :: nat
  red_two :: nat
  red_three :: nat
  blue_one :: nat
  blue_two :: nat
  blue_three :: nat
  red_score :: json
  blue_score :: json
  comp_level :: nat
  match_time :: "datetime option"
  match_void_ind :: string

record message =
  message_type :: json
  message_data :: string

text \<open>The database: the tables, and the link table of the many-to-many relation between
  events and teams as a set of (event, team) pairs.\<close>

record db =
  events :: "event list"
  teams :: "team list"
  event_teams :: "(nat \<times> nat) set"
  comp_levels :: "competition_level list"
  matches :: "match_row list"
  messages :: "message list"

text \<open>
  \<^verbatim>\<open>Model.objects.get(...)\<close>: the one row that satisfies the condition, with its key;
  \<^verbatim>\<open>DoesNotExist\<close> when there is none, \<^verbatim>\<open>MultipleObjectsReturned\<close> when there are several.
\<close>

definition matching :: "('a \<Rightarrow> bool) \<Rightarrow> 'a list \<Rightarrow> nat list" where
  "matching P rows = filter (\<lambda>i. P (rows ! i)) [0..<length rows]"

definition objects_get :: "('a \<Rightarrow> bool) \<Rightarrow> 'a list \<Rightarrow> pyerr + (nat \<times> 'a)" where
  "objects_get P rows =
     (case matching P rows of
        [] \<Rightarrow> Inl DoesNotExist
      | [i] \<Rightarrow> Inr (i, rows ! i)
      | _ \<Rightarrow> Inl MultipleObjectsReturned)"

section \<open>The environment: library calls, settings and the external API\<close>

text \<open>
  What the source imports and does not define is a parameter: the HTTP request to The Blue
  Alliance with \<^verbatim>\<open>json.loads\<close> of its text, Python's \<^verbatim>\<open>str()\<close> and the text of an
  exception, the two date conversions, Django's preparation of a value for an integer or a
  character column, a fresh \<^verbatim>\<open>Event()\<close> with the model's field defaults,
  \<^verbatim>\<open>json.dumps(_, ensure_ascii=True)\<close>, HMAC-SHA256, and the two settings.
\<close>

record env =
  http_get_json :: "string \<Rightarrow> string \<Rightarrow> pyerr + json"
  py_str :: "json \<Rightarrow> string"
  library_exc_text :: "pyerr \<Rightarrow> string"
  strptime_astimezone :: "json \<Rightarrow> json \<Rightarrow> pyerr + datetime"
  fromtimestamp :: "json \<Rightarrow> pyerr + datetime"
  int_field :: "json \<Rightarrow> pyerr + int"
  char_field :: "json \<Rightarrow> pyerr + string"
  new_event :: event
  json_dumps :: "json \<Rightarrow> string"
  hmac_sha256 :: "string \<Rightarrow> string \<Rightarrow> 256 word"
  TBA_KEY :: string
  TBA_WEBHOOK_SECRET :: string

text \<open>\<^verbatim>\<open>str(e)\<close>, the \<^verbatim>\<open>{e}\<close> of an f-string: \<^verbatim>\<open>Exception(v)\<close> prints as \<^verbatim>\<open>str(v)\<close>.\<close>

definition exc_text :: "'x env_scheme \<Rightarrow> pyerr \<Rightarrow> string" where
  "exc_text ev e = (case e of Exception v \<Rightarrow> py_str ev v | _ \<Rightarrow> library_exc_text ev e)"

definition tba_url :: string where
  "tba_url = ''https://www.thebluealliance.com/api/v3''"

section \<open>Helpers of \<^verbatim>\<open>tba/util.py\<close> without persistent state\<close>

text \<open>\<^verbatim>\<open>replace_frc_in_str\<close>: \<^verbatim>\<open>return s.replace("frc", "")\<close>.\<close>

definition replace_frc_in_str :: "string \<Rightarrow> string" where
  "replace_frc_in_str s = str_replace ''frc'' '''' s"

text \<open>The same scan written by cases on the next three characters; used in proofs only.\<close>

fun strip_frc :: "string \<Rightarrow> string" where
  "strip_frc (a # b # c # cs) =
     (if [a, b, c] = ''frc'' then strip_frc cs else a # strip_frc (b # c # cs))"
| "strip_frc cs = cs"

text \<open>
  A webhook request: \<^verbatim>\<open>request.data\<close> is the parsed JSON body, \<^verbatim>\<open>request.META\<close> maps header
  names to their string values.
\<close>

record request =
  req_data :: json
  req_META :: "string \<rightharpoonup> string"

text \<open>
  \<^verbatim>\<open>verify_tba_webhook_call\<close>: the hex digest of the serialized body is compared with
  \<^verbatim>\<open>request.META.get("HTTP_X_TBA_HMAC", None)\<close>; a string never equals \<^verbatim>\<open>None\<close>.
\<close>

definition verify_tba_webhook_call :: "'x env_scheme \<Rightarrow> request \<Rightarrow> bool" where
  "verify_tba_webhook_call ev request =
     (let json_str = json_dumps ev (req_data request);
          hmac_hex = hexdigest (hmac_sha256 ev (encode_utf8 (TBA_WEBHOOK_SECRET ev))
                                 (encode_utf8 json_str))
      in (case req_META request ''HTTP_X_TBA_HMAC'' of
            None \<Rightarrow> False
          | Some h \<Rightarrow> hmac_hex = h))"

section \<open>Fetching from the external API\<close>

definition bind_err :: "pyerr + 'a \<Rightarrow> ('a \<Rightarrow> pyerr + 'b) \<Rightarrow> pyerr + 'b" where
  "bind_err m f = (case m of Inl e \<Rightarrow> Inl e | Inr v \<Rightarrow> f v)"

text \<open>A comprehension or a loop over a list that stops at the first exception.\<close>

fun map_err :: "('a \<Rightarrow> pyerr + 'b) \<Rightarrow> 'a list \<Rightarrow> pyerr + 'b list" where
  "map_err f [] = Inr []"
| "map_err f (x # xs) =
     (case f x of
        Inl e \<Rightarrow> Inl e
      | Inr y \<Rightarrow> (case map_err f xs of Inl e \<Rightarrow> Inl e | Inr ys \<Rightarrow> Inr (y # ys)))"

text \<open>The dict that \<^verbatim>\<open>get_tba_event\<close> returns, one field per key.\<close>

record event_data =
  d_event_nm :: json
  d_date_st :: datetime
  d_date_end :: datetime
  d_event_cd :: json
  d_event_url :: json
  d_gmaps_url :: json
  d_address :: json
  d_city :: json
  d_state_prov :: json
  d_postal_code :: json
  d_location_name :: json
  d_timezone :: json
  d_webcast_url :: json

text \<open>
  \<^verbatim>\<open>get_tba_event\<close>, lines 111-161. The values of the returned dict are evaluated in the
  order of its keys, so the first failing one decides the exception.
\<close>

definition get_tba_event :: "'x env_scheme \<Rightarrow> string \<Rightarrow> pyerr + event_data" where
  "get_tba_event ev event_cd' =
     bind_err (http_get_json ev (tba_url @ ''/event/'' @ event_cd') (TBA_KEY ev)) (\<lambda>tba_event.
     bind_err (dict_get tba_event ''Error'' JNull) (\<lambda>err.
     if err \<noteq> JNull then bind_err (getitem_str tba_event ''Error'') (\<lambda>v. Inl (Exception v))
     else
     bind_err (dict_get tba_event ''timezone'' JNull) (\<lambda>tz.
     bind_err (if tz \<noteq> JNull then dict_get tba_event ''timezone'' JNull
               else Inr (JStr ''America/New_York'')) (\<lambda>time_zone.
     bind_err (getitem_str tba_event ''name'') (\<lambda>name.
     bind_err (getitem_str tba_event ''start_date'') (\<lambda>start_date.
     bind_err (strptime_astimezone ev start_date time_zone) (\<lambda>st.
     bind_err (getitem_str tba_event ''end_date'') (\<lambda>end_date.
     bind_err (strptime_astimezone ev end_date time_zone) (\<lambda>en.
     bind_err (getitem_str tba_event ''key'') (\<lambda>key.
     bind_err (dict_get tba_event ''event_url'' JNull) (\<lambda>url.
     bind_err (dict_get tba_event ''gmaps_url'' JNull) (\<lambda>gmaps.
     bind_err (dict_get tba_event ''address'' JNull) (\<lambda>addr.
     bind_err (dict_get tba_event ''city'' JNull) (\<lambda>cty.
     bind_err (dict_get tba_event ''state_prov'' JNull) (\<lambda>prov.
     bind_err (dict_get tba_event ''postal_code'' JNull) (\<lambda>postal.
     bind_err (dict_get tba_event ''location_name'' JNull) (\<lambda>loc.
     bind_err (dict_get tba_event ''timezone'' (JStr ''America/New_York'')) (\<lambda>tzf.
     bind_err (getitem_str tba_event ''webcasts'') (\<lambda>webcasts.
     bind_err (py_len webcasts) (\<lambda>n.
     bind_err (if n > 0
               then bind_err (getitem_str tba_event ''webcasts'') (\<lambda>w.
                    bind_err (getitem_idx w 0) (\<lambda>w0. getitem_str w0 ''channel''))
               else Inr (JStr '''')) (\<lambda>webcast.
     Inr \<lparr>d_event_nm = name, d_date_st = st, d_date_end = en, d_event_cd = key,
          d_event_url = url, d_gmaps_url = gmaps, d_address = addr, d_city = cty,
          d_state_prov = prov, d_postal_code = postal, d_location_name = loc,
          d_timezone = tzf, d_webcast_url = webcast\<rparr>)))))))))))))))))))))"

text \<open>An element of the list that \<^verbatim>\<open>get_tba_event_teams\<close> returns.\<close>

record team_data =
  td_team_no :: json
  td_team_nm :: json

text \<open>\<^verbatim>\<open>get_tba_event_teams\<close>, lines 164-185.\<close>

definition get_tba_event_teams :: "'x env_scheme \<Rightarrow> string \<Rightarrow> pyerr + team_data list" where
  "get_tba_event_teams ev event_cd' =
     bind_err (http_get_json ev (tba_url @ ''/event/'' @ event_cd' @ ''/teams'') (TBA_KEY ev))
       (\<lambda>tba_teams.
     bind_err (py_iter tba_teams) (\<lambda>ts.
     map_err (\<lambda>team. bind_err (getitem_str team ''team_number'') (\<lambda>no.
                      bind_err (getitem_str team ''nickname'') (\<lambda>nm.
                      Inr \<lparr>td_team_no = no, td_team_nm = nm\<rparr>))) ts))"

section \<open>\<^verbatim>\<open>sync_event\<close>\<close>

definition nl :: string where
  "nl = [CHR 0x0A]"

text \<open>
  Lines 205-225: the event is looked up by its code. On a hit the void indicator and the
  two dates are assigned to the object in memory; on \<^verbatim>\<open>DoesNotExist\<close> a new row is inserted.
  The message line is built by string concatenation, after the insertion.
\<close>

definition sync_event_lookup ::
  "'x env_scheme \<Rightarrow> nat \<Rightarrow> event_data \<Rightarrow> db \<Rightarrow> (pyerr + (nat \<times> event \<times> string)) \<times> db" where
  "sync_event_lookup ev season' data s =
     (case char_field ev (d_event_cd data) of
        Inl e \<Rightarrow> (Inl e, s)
      | Inr cd \<Rightarrow>
          (case objects_get (\<lambda>r. event_cd r = cd) (events s) of
             Inr (i, event0) \<Rightarrow>
               (let event1 = event0\<lparr>void_ind := ''n'', date_st := d_date_st data,
                                    date_end := d_date_end data\<rparr>
                in case str_concat ''(NO ADD) Already have event: '' (d_event_cd data) of
                     Inl e \<Rightarrow> (Inl e, s)
                   | Inr m \<Rightarrow> (Inr (i, event1, m @ nl), s))
           | Inl DoesNotExist \<Rightarrow>
               (let event1 = (new_event ev)\<lparr>season := season', event_cd := cd,
                        date_st := d_date_st data, date_end := d_date_end data,
                        current := ''n'', competition_page_active := ''n'', void_ind := ''n''\<rparr>;
                    s1 = s\<lparr>events := events s @ [event1]\<rparr>
                in case str_concat ''(ADD) Added event: '' (d_event_cd data) of
                     Inl e \<Rightarrow> (Inl e, s1)
                   | Inr m \<Rightarrow> (Inr (length (events s), event1, m @ nl), s1))
           | Inl e \<Rightarrow> (Inl e, s)))"

text \<open>Lines 227-237: the descriptive fields are assigned and the row is saved.\<close>

definition sync_event_save :: "event_data \<Rightarrow> nat \<Rightarrow> event \<Rightarrow> db \<Rightarrow> db" where
  "sync_event_save data i event1 s =
     s\<lparr>events := (events s)[i := event1\<lparr>event_nm := d_event_nm data,
          event_url := d_event_url data, address := d_address data, city := d_city data,
          state_prov := d_state_prov data, postal_code := d_postal_code data,
          location_name := d_location_name data, gmaps_url := d_gmaps_url data,
          webcast_url := d_webcast_url data, timezone := d_timezone data\<rparr>]\<rparr>"

text \<open>Only a list or a dict among the parsed values cannot be a member of a \<^verbatim>\<open>set\<close>.\<close>

fun hashable :: "json \<Rightarrow> bool" where
  "hashable (JArr xs) = False"
| "hashable (JObj kvs) = False"
| "hashable _ = True"

text \<open>
  Line 240-242: the team numbers of the reported roster, as the query needs them: the
  \<^verbatim>\<open>set\<close> is built first, then each member is prepared for the integer column. (When
  several members are ill-typed, the one reported here is the first of the roster.)
\<close>

definition roster_numbers :: "'x env_scheme \<Rightarrow> team_data list \<Rightarrow> pyerr + int list" where
  "roster_numbers ev tms =
     bind_err (map_err (\<lambda>t. if hashable (td_team_no t) then Inr (td_team_no t)
                             else Inl TypeError) tms) (\<lambda>nos.
     map_err (int_field ev) nos)"

text \<open>
  Lines 240-245: the teams linked to the event whose number is not reported, in table
  order; each is unlinked and named in a line of the message.
\<close>

definition stale_teams :: "int list \<Rightarrow> nat \<Rightarrow> db \<Rightarrow> nat list" where
  "stale_teams ns i s =
     filter (\<lambda>t. team_no (teams s ! t) \<notin> set ns \<and> (i, t) \<in> event_teams s)
       [0..<length (teams s)]"

fun remove_loop ::
  "'x env_scheme \<Rightarrow> event_data \<Rightarrow> nat \<Rightarrow> nat list \<Rightarrow> string \<times> db \<Rightarrow> string \<times> db" where
  "remove_loop ev data i [] (m, s) = (m, s)"
| "remove_loop ev data i (t # ts) (m, s) =
     remove_loop ev data i ts
       (m @ ''(REMOVE) Removed team: '' @ py_str ev (JInt (team_no (teams s ! t))) @ '' ''
          @ py_str ev (team_nm (teams s ! t)) @ '' from event: ''
          @ py_str ev (d_event_cd data) @ nl,
        s\<lparr>event_teams := event_teams s - {(i, t)}\<rparr>)"

text \<open>
  \<^verbatim>\<open>Team(...).save(force_insert=True)\<close>: the team number is unique, so the insertion raises
  \<^verbatim>\<open>IntegrityError\<close> when a row has it already.
\<close>

definition team_force_insert :: "team \<Rightarrow> db \<Rightarrow> pyerr + (nat \<times> db)" where
  "team_force_insert t s =
     (if \<exists>r \<in> set (teams s). team_no r = team_no t then Inl IntegrityError
      else Inr (length (teams s), s\<lparr>teams := teams s @ [t]\<rparr>))"

text \<open>
  \<^verbatim>\<open>team.event_set.add(event)\<close>: the link is stored once; as the source's comment says, adding
  it again raises nothing.
\<close>

definition event_set_add :: "nat \<Rightarrow> nat \<Rightarrow> db \<Rightarrow> pyerr + db" where
  "event_set_add t i s = Inr (s\<lparr>event_teams := insert (i, t) (event_teams s)\<rparr>)"

text \<open>Lines 248-258: the team is inserted, or fetched when the insertion is refused.\<close>

definition team_add_or_get ::
  "'x env_scheme \<Rightarrow> team_data \<Rightarrow> db \<Rightarrow> (pyerr + (nat \<times> string)) \<times> db" where
  "team_add_or_get ev team' s =
     (case int_field ev (td_team_no team') of
        Inl e \<Rightarrow> (Inl e, s)
      | Inr n \<Rightarrow>
          (case team_force_insert
                  \<lparr>team_no = n, team_nm = td_team_nm team', team_void_ind = ''n''\<rparr> s of
             Inr (t, s1) \<Rightarrow>
               (Inr (t, ''(ADD) Added team: '' @ py_str ev (td_team_no team') @ '' ''
                        @ py_str ev (td_team_nm team') @ nl), s1)
           | Inl IntegrityError \<Rightarrow>
               (case bind_err (int_field ev (td_team_no team'))
                       (\<lambda>n'. objects_get (\<lambda>r. team_no r = n') (teams s)) of
                  Inl e \<Rightarrow> (Inl e, s)
                | Inr (t, r) \<Rightarrow>
                    (Inr (t, ''(NO ADD) Already have team: '' @ py_str ev (td_team_no team')
                             @ '' '' @ py_str ev (td_team_nm team') @ nl), s))
           | Inl e \<Rightarrow> (Inl e, s)))"

text \<open>Lines 247-264: the loop over the reported roster.\<close>

fun add_loop ::
  "'x env_scheme \<Rightarrow> event_data \<Rightarrow> nat \<Rightarrow> team_data list \<Rightarrow> string \<times> db
     \<Rightarrow> (pyerr + string) \<times> db" where
  "add_loop ev data i [] (m, s) = (Inr m, s)"
| "add_loop ev data i (team' # rest) (m, s) =
     (case team_add_or_get ev team' s of
        (Inl e, s1) \<Rightarrow> (Inl e, s1)
      | (Inr (t, m1), s1) \<Rightarrow>
          (case event_set_add t i s1 of
             Inr s2 \<Rightarrow>
               add_loop ev data i rest
                 (m @ m1 @ ''(LINK) Added team: '' @ py_str ev (td_team_no team') @ '' ''
                    @ py_str ev (td_team_nm team') @ '' to event: ''
                    @ py_str ev (d_event_cd data) @ nl, s2)
           | Inl IntegrityError \<Rightarrow>
               add_loop ev data i rest
                 (m @ m1 @ ''(NO LINK) Team: '' @ py_str ev (td_team_no team') @ '' ''
                    @ py_str ev (td_team_nm team') @ '' already at event: ''
                    @ py_str ev (d_event_cd data) @ nl, s1)
           | Inl e \<Rightarrow> (Inl e, s1)))"

text \<open>\<^verbatim>\<open>sync_event\<close>, lines 188-266: the result is the message or the exception, and the
  database as the call leaves it.\<close>

definition sync_event :: "'x env_scheme \<Rightarrow> nat \<Rightarrow> string \<Rightarrow> db \<Rightarrow> (pyerr + string) \<times> db" where
  "sync_event ev season' event_cd' s =
     (case get_tba_event ev event_cd' of
        Inl e \<Rightarrow> (Inl e, s)
      | Inr data \<Rightarrow>
     (case get_tba_event_teams ev event_cd' of
        Inl e \<Rightarrow> (Inl e, s)
      | Inr tms \<Rightarrow>
     (case sync_event_lookup ev season' data s of
        (Inl e, s1) \<Rightarrow> (Inl e, s1)
      | (Inr (i, event1, m1), s1) \<Rightarrow>
     (let s2 = sync_event_save data i event1 s1 in
      case roster_numbers ev tms of
        Inl e \<Rightarrow> (Inl e, s2)
      | Inr ns \<Rightarrow>
     (let (m3, s3) = remove_loop ev data i (stale_teams ns i s2) (m1, s2)
      in add_loop ev data i tms (m3, s3))))))"

section \<open>\<^verbatim>\<open>save_tba_match\<close>, \<^verbatim>\<open>sync_matches\<close> and \<^verbatim>\<open>save_message\<close>\<close>

text \<open>
  Lines 408-431, one of the six lookups: the team key at \<open>tba_match["alliances"][colour]
  ["team_keys"][k]\<close> loses its \<^verbatim>\<open>"frc"\<close> (a value that is not a string has no
  \<^verbatim>\<open>replace\<close>), and the team with that number that is not void is fetched.
\<close>

definition match_team ::
  "'x env_scheme \<Rightarrow> json \<Rightarrow> string \<Rightarrow> nat \<Rightarrow> db \<Rightarrow> pyerr + (nat \<times> team)" where
  "match_team ev tba_match colour k s =
     bind_err (getitem_str tba_match ''alliances'') (\<lambda>alliances.
     bind_err (getitem_str alliances colour) (\<lambda>alliance.
     bind_err (getitem_str alliance ''team_keys'') (\<lambda>team_keys.
     bind_err (getitem_idx team_keys k) (\<lambda>key.
     bind_err (case key of JStr x \<Rightarrow> Inr (JStr (replace_frc_in_str x))
                         | _ \<Rightarrow> Inl AttributeError) (\<lambda>no.
     bind_err (int_field ev no) (\<lambda>n.
     objects_get (\<lambda>r. team_no r = n \<and> team_void_ind r = ''n'') (teams s)))))))"

text \<open>Lines 432-433: \<^verbatim>\<open>tba_match["alliances"][colour].get("score", None)\<close>.\<close>

definition match_score :: "json \<Rightarrow> string \<Rightarrow> pyerr + json" where
  "match_score tba_match colour =
     bind_err (getitem_str tba_match ''alliances'') (\<lambda>alliances.
     bind_err (getitem_str alliances colour) (\<lambda>alliance.
     dict_get alliance ''score'' JNull))"

text \<open>What lines 405-444 compute before the match is looked up.\<close>

record match_fields =
  f_event :: "nat \<times> event"
  f_match_number :: json
  f_red_one :: "nat \<times> team"
  f_red_two :: "nat \<times> team"
  f_red_three :: "nat \<times> team"
  f_blue_one :: "nat \<times> team"
  f_blue_two :: "nat \<times> team"
  f_blue_three :: "nat \<times> team"
  f_red_score :: json
  f_blue_score :: json
  f_comp_level :: "nat \<times> competition_level"
  f_time :: "datetime option"
  f_match_key :: json

definition match_lookups :: "'x env_scheme \<Rightarrow> json \<Rightarrow> db \<Rightarrow> pyerr + match_fields" where
  "match_lookups ev tba_match s =
     bind_err (getitem_str tba_match ''event_key'') (\<lambda>event_key.
     bind_err (char_field ev event_key) (\<lambda>cd.
     bind_err (objects_get (\<lambda>r. event_cd r = cd) (events s)) (\<lambda>event'.
     bind_err (dict_get tba_match ''match_number'' (JInt 0)) (\<lambda>match_number'.
     bind_err (match_team ev tba_match ''red'' 0 s) (\<lambda>red_one'.
     bind_err (match_team ev tba_match ''red'' 1 s) (\<lambda>red_two'.
     bind_err (match_team ev tba_match ''red'' 2 s) (\<lambda>red_three'.
     bind_err (match_team ev tba_match ''blue'' 0 s) (\<lambda>blue_one'.
     bind_err (match_team ev tba_match ''blue'' 1 s) (\<lambda>blue_two'.
     bind_err (match_team ev tba_match ''blue'' 2 s) (\<lambda>blue_three'.
     bind_err (match_score tba_match ''red'') (\<lambda>red_score'.
     bind_err (match_score tba_match ''blue'') (\<lambda>blue_score'.
     bind_err (dict_get tba_match ''comp_level'' (JStr '' '')) (\<lambda>lvl.
     bind_err (char_field ev lvl) (\<lambda>typ.
     bind_err (objects_get (\<lambda>r. comp_lvl_typ r = typ \<and> comp_lvl_void_ind r = ''n'')
                 (comp_levels s)) (\<lambda>comp_level'.
     bind_err (getitem_str tba_match ''time'') (\<lambda>t.
     bind_err (if truthy t
               then bind_err (getitem_str tba_match ''time'') (\<lambda>t'.
                    bind_err (fromtimestamp ev t') (\<lambda>dt. Inr (Some dt)))
               else Inr None) (\<lambda>time.
     bind_err (getitem_str tba_match ''key'') (\<lambda>key.
     Inr \<lparr>f_event = event', f_match_number = match_number', f_red_one = red_one',
          f_red_two = red_two', f_red_three = red_three', f_blue_one = blue_one',
          f_blue_two = blue_two', f_blue_three = blue_three', f_red_score = red_score',
          f_blue_score = blue_score', f_comp_level = comp_level', f_time = time,
          f_match_key = key\<rparr>))))))))))))))))))"

text \<open>The tail of both message lines:
  \<^verbatim>\<open>{event.event_nm} {comp_level.comp_lvl_typ_nm} {match_number} {match_key}\n\<close>.\<close>

definition match_line :: "'x env_scheme \<Rightarrow> match_fields \<Rightarrow> string" where
  "match_line ev f =
     py_str ev (event_nm (snd (f_event f))) @ '' ''
       @ py_str ev (comp_lvl_typ_nm (snd (f_comp_level f))) @ '' ''
       @ py_str ev (f_match_number f) @ '' '' @ py_str ev (f_match_key f) @ nl"

text \<open>Lines 449-459: the assignments to the match that was found.\<close>

definition match_assign :: "match_fields \<Rightarrow> match_row \<Rightarrow> match_row" where
  "match_assign f match0 =
     match0\<lparr>red_one := fst (f_red_one f), red_two := fst (f_red_two f),
            red_three := fst (f_red_three f), blue_one := fst (f_blue_one f),
            blue_two := fst (f_blue_two f), blue_three := fst (f_blue_three f),
            red_score := f_red_score f, blue_score := f_blue_score f,
            comp_level := fst (f_comp_level f), match_time := f_time f,
            match_void_ind := ''n''\<rparr>"

text \<open>Lines 464-479: the new match.\<close>

definition match_new :: "string \<Rightarrow> match_fields \<Rightarrow> match_row" where
  "match_new k f =
     \<lparr>match_key = k, match_number = f_match_number f, match_event = fst (f_event f),
      red_one = fst (f_red_one f), red_two = fst (f_red_two f),
      red_three = fst (f_red_three f), blue_one = fst (f_blue_one f),
      blue_two = fst (f_blue_two f), blue_three = fst (f_blue_three f),
      red_score = f_red_score f, blue_score = f_blue_score f,
      comp_level = fst (f_comp_level f), match_time = f_time f, match_void_ind = ''n''\<rparr>"

text \<open>
  \<^verbatim>\<open>save_tba_match\<close>, lines 393-483. Every lookup is made before anything is written; then
  the match with the key is updated, or a new row is added.
\<close>

definition save_tba_match :: "'x env_scheme \<Rightarrow> json \<Rightarrow> db \<Rightarrow> (pyerr + string) \<times> db" where
  "save_tba_match ev tba_match s =
     (case match_lookups ev tba_match s of
        Inl e \<Rightarrow> (Inl e, s)
      | Inr f \<Rightarrow>
          (case bind_err (char_field ev (f_match_key f))
                  (\<lambda>k. objects_get (\<lambda>r. match_key r = k) (matches s)) of
             Inr (j, match0) \<Rightarrow>
               (Inr (''(UPDATE) '' @ match_line ev f),
                s\<lparr>matches := (matches s)[j := match_assign f match0]\<rparr>)
           | Inl DoesNotExist \<Rightarrow>
               (case char_field ev (f_match_key f) of
                  Inl e \<Rightarrow> (Inl e, s)
                | Inr k \<Rightarrow>
                    (Inr (''(ADD) '' @ match_line ev f),
                     s\<lparr>matches := matches s @ [match_new k f]\<rparr>))
           | Inl e \<Rightarrow> (Inl e, s)))"




text \<open>
  \<^verbatim>\<open>save_message\<close>, lines 486-501: the new row holds the message type and the first 4000
  characters of \<^verbatim>\<open>str(message["message_data"])\<close>; the row is returned with its key.
\<close>

definition save_message ::
  "'x env_scheme \<Rightarrow> json \<Rightarrow> db \<Rightarrow> (pyerr + (nat \<times> message)) \<times> db" where
  "save_message ev message' s =
     (case getitem_str message' ''message_type'' of
        Inl e \<Rightarrow> (Inl e, s)
      | Inr mt \<Rightarrow>
          (case getitem_str message' ''message_data'' of
             Inl e \<Rightarrow> (Inl e, s)
           | Inr md \<Rightarrow>
               (let msg = \<lparr>message_type = mt, message_data = take 4000 (py_str ev md)\<rparr>
                in (Inr (length (messages s), msg), s\<lparr>messages := messages s @ [msg]\<rparr>))))"


section \<open>A sample environment and sample data\<close>

text \<open>
  For the worked examples each library parameter is a small function that agrees with the
  library on the values the examples use; the API answers are those of the fixtures in
  \<^verbatim>\<open>tests/tba\<close>.
\<close>

function show_nat :: "nat \<Rightarrow> string" where
  "show_nat n = (if n < 10 then [char_of (48 + n)]
                 else show_nat (n div 10) @ [char_of (48 + n mod 10)])"
  by pat_completeness auto
termination
  by (relation "measure id") auto

fun digits_value :: "string \<Rightarrow> nat \<Rightarrow> nat option" where
  "digits_value [] acc = Some acc"
| "digits_value (c # cs) acc =
     (if 48 \<le> (of_char c :: nat) \<and> (of_char c :: nat) \<le> 57
      then digits_value cs (10 * acc + (of_char c - 48)) else None)"

definition sample_str :: "json \<Rightarrow> string" where
  "sample_str v =
     (case v of
        JStr s \<Rightarrow> s
      | JInt n \<Rightarrow> (if n < 0 then ''-'' @ show_nat (nat (- n)) else show_nat (nat n))
      | JNull \<Rightarrow> ''None''
      | _ \<Rightarrow> ''?'')"

definition sample_int_field :: "json \<Rightarrow> pyerr + int" where
  "sample_int_field v =
     (case v of
        JInt n \<Rightarrow> Inr n
      | JStr s \<Rightarrow>
          (if s = [] then Inl ValueError
           else case digits_value s 0 of None \<Rightarrow> Inl ValueError | Some n \<Rightarrow> Inr (int n))
      | _ \<Rightarrow> Inl TypeError)"

definition sample_char_field :: "json \<Rightarrow> pyerr + string" where
  "sample_char_field v = (case v of JStr s \<Rightarrow> Inr s | _ \<Rightarrow> Inl TypeError)"

definition sample_strptime :: "json \<Rightarrow> json \<Rightarrow> pyerr + datetime" where
  "sample_strptime d tz =
     (case d of
        JStr s \<Rightarrow> (if s = ''2024-03-15'' then Inr 1710475200
                    else if s = ''2024-03-17'' then Inr 1710648000 else Inl ValueError)
      | _ \<Rightarrow> Inl TypeError)"

definition sample_fromtimestamp :: "json \<Rightarrow> pyerr + datetime" where
  "sample_fromtimestamp t = (case t of JInt n \<Rightarrow> Inr n | _ \<Rightarrow> Inl TypeError)"

definition sample_dumps :: "json \<Rightarrow> string" where
  "sample_dumps v = (case v of JStr s \<Rightarrow> [CHR 0x22] @ s @ [CHR 0x22] | _ \<Rightarrow> ''null'')"

definition sample_event :: event where
  "sample_event =
     \<lparr>season = 1, event_cd = ''2024pahat'', event_nm = JStr ''Hatboro-Horsham'',
      date_st = 1710475200, date_end = 1710648000, event_url = JStr ''http://test.com'',
      gmaps_url = JStr ''http://maps.google.com'', address = JNull, city = JNull,
      state_prov = JNull, postal_code = JNull, location_name = JNull, webcast_url = JNull,
      timezone = JNull, current = ''n'', competition_page_active = ''n'', void_ind = ''n''\<rparr>"

definition sample_event_json :: json where
  "sample_event_json =
     JObj [(''key'', JStr ''2024pahat''), (''name'', JStr ''Hatboro-Horsham''),
           (''start_date'', JStr ''2024-03-15''), (''end_date'', JStr ''2024-03-17''),
           (''webcasts'', JArr [])]"

definition sample_roster_json :: json where
  "sample_roster_json =
     JArr [JObj [(''team_number'', JInt 2), (''nickname'', JStr ''B'')],
           JObj [(''team_number'', JInt 3), (''nickname'', JStr ''C'')],
           JObj [(''team_number'', JInt 4), (''nickname'', JStr ''D'')]]"

definition sample_match_json :: json where
  "sample_match_json =
     JObj [(''key'', JStr ''2024pahat_qm1''), (''match_number'', JInt 1),
           (''event_key'', JStr ''2024pahat''), (''comp_level'', JStr ''qm''),
           (''alliances'', JObj
              [(''red'', JObj [(''team_keys'', JArr [JStr ''frc3492'', JStr ''frc3493'',
                                                     JStr ''frc3494'']),
                               (''score'', JInt 100)]),
               (''blue'', JObj [(''team_keys'', JArr [JStr ''frc3495'', JStr ''frc3496'',
                                                      JStr ''frc3497'']),
                                (''score'', JInt 90)])]),
           (''time'', JInt 1640000000)]"

definition sample_http :: "string \<Rightarrow> string \<Rightarrow> pyerr + json" where
  "sample_http url key =
     (if url = tba_url @ ''/event/2024pahat'' then Inr sample_event_json
      else if url = tba_url @ ''/event/2024pahat/teams'' then Inr sample_roster_json
      else if url = tba_url @ ''/event/2024pahat/matches''
        then Inr (JArr [sample_match_json, JObj [(''invalid'', JStr ''data'')],
                        sample_match_json])
      else Inl (LibraryError ''404''))"

definition sample_env :: env where
  "sample_env =
     \<lparr>http_get_json = sample_http, py_str = sample_str,
      library_exc_text = (\<lambda>e. ''error''), strptime_astimezone = sample_strptime,
      fromtimestamp = sample_fromtimestamp, int_field = sample_int_field,
      char_field = sample_char_field, new_event = sample_event,
      json_dumps = sample_dumps, hmac_sha256 = (\<lambda>k m. 0),
      TBA_KEY = ''key'', TBA_WEBHOOK_SECRET = ''secret''\<rparr>"

text \<open>An event with the teams 1, 2 and 3 linked to it; the reported roster is 2, 3, 4.\<close>

definition roster_db :: db where
  "roster_db =
     \<lparr>events = [sample_event],
      teams = [\<lparr>team_no = 1, team_nm = JStr ''A'', team_void_ind = ''n''\<rparr>,
               \<lparr>team_no = 2, team_nm = JStr ''B'', team_void_ind = ''n''\<rparr>,
               \<lparr>team_no = 3, team_nm = JStr ''C'', team_void_ind = ''n''\<rparr>],
      event_teams = {(0, 0), (0, 1), (0, 2)},
      comp_levels = [], matches = [], messages = []\<rparr>"

text \<open>The fixture \<^verbatim>\<open>test_event_with_teams\<close> of \<^verbatim>\<open>tests/tba/conftest.py\<close>: an event, the
  qualification level and six teams, none of them linked to the event.\<close>

definition fixture_db :: db where
  "fixture_db =
     \<lparr>events = [sample_event],
      teams = map (\<lambda>n. \<lparr>team_no = n, team_nm = JStr ''Team'', team_void_ind = ''n''\<rparr>)
                [3492, 3493, 3494, 3495, 3496, 3497],
      event_teams = {},
      comp_levels = [\<lparr>comp_lvl_typ = ''qm'', comp_lvl_typ_nm = JStr ''Qualification'',
                      comp_lvl_void_ind = ''n''\<rparr>],
      matches = [], messages = []\<rparr>"

text \<open>The long body of the repository's truncation test, and a short one.\<close>

definition long_message :: json where
  "long_message = JObj [(''message_type'', JStr ''test''),
                        (''message_data'', JStr (replicate 5000 (CHR ''x'')))]"

definition short_message :: json where
  "short_message = JObj [(''message_type'', JStr ''match_score''),
                         (''message_data'', JStr ''2024pahat'')]"

text \<open>An API that answers with an error object, and one that answers with an empty
  object.\<close>

definition error_env :: env where
  "error_env =
     sample_env\<lparr>http_get_json := \<lambda>url key. Inr (JObj [(''Error'', JStr ''Invalid event key'')])\<rparr>"

definition empty_env :: env where
  "empty_env = sample_env\<lparr>http_get_json := \<lambda>url key. Inr (JObj [])\<rparr>"

text \<open>The six team slots of a match, and where the team key of each is found in the
  data of The Blue Alliance.\<close>

definition team_slots :: "match_row \<Rightarrow> nat list" where
  "team_slots m = [red_one m, red_two m, red_three m, blue_one m, blue_two m, blue_three m]"


text \<open>The match that \<^verbatim>\<open>save_tba_match\<close> adds for the sample data, and the line it returns.\<close>

definition sample_match :: match_row where
  "sample_match =
     \<lparr>match_key = ''2024pahat_qm1'', match_number = JInt 1, match_event = 0,
      red_one = 0, red_two = 1, red_three = 2, blue_one = 3, blue_two = 4, blue_three = 5,
      red_score = JInt 100, blue_score = JInt 90, comp_level = 0,
      match_time = Some 1640000000, match_void_ind = ''n''\<rparr>"

definition sample_match_line :: string where
  "sample_match_line = ''Hatboro-Horsham Qualification '' @ show_nat 1 @ '' 2024pahat_qm1'' @ nl"




text \<open>A message with a long body and no \<^verbatim>\<open>message_type\<close>.\<close>

definition untyped_message :: json where
  "untyped_message = JObj [(''message_data'', JStr (replicate 5000 (CHR ''x'')))]"

text \<open>What \<^verbatim>\<open>save_tba_match\<close> looks up for the sample match in the fixture.\<close>

definition sample_fields :: match_fields where
  "sample_fields =
     \<lparr>f_event = (0, sample_event), f_match_number = JInt 1,
      f_red_one = (0, \<lparr>team_no = 3492, team_nm = JStr ''Team'', team_void_ind = ''n''\<rparr>),
      f_red_two = (1, \<lparr>team_no = 3493, team_nm = JStr ''Team'', team_void_ind = ''n''\<rparr>),
      f_red_three = (2, \<lparr>team_no = 3494, team_nm = JStr ''Team'', team_void_ind = ''n''\<rparr>),
      f_blue_one = (3, \<lparr>team_no = 3495, team_nm = JStr ''Team'', team_void_ind = ''n''\<rparr>),
      f_blue_two = (4, \<lparr>team_no = 3496, team_nm = JStr ''Team'', team_void_ind = ''n''\<rparr>),
      f_blue_three = (5, \<lparr>team_no = 3497, team_nm = JStr ''Team'', team_void_ind = ''n''\<rparr>),
      f_red_score = JInt 100, f_blue_score = JInt 90,
      f_comp_level = (0, \<lparr>comp_lvl_typ = ''qm'', comp_lvl_typ_nm = JStr ''Qualification'',
                           comp_lvl_void_ind = ''n''\<rparr>),
      f_time = Some 1640000000, f_match_key = JStr ''2024pahat_qm1''\<rparr>"



text \<open>The two lines that \<^verbatim>\<open>sync_event\<close> writes for a reported team that is in the team table
  already (lines 256-258 and 262).\<close>

definition relink_lines :: "'x env_scheme \<Rightarrow> event_data \<Rightarrow> team_data \<Rightarrow> string" where
  "relink_lines ev data team' =
     ''(NO ADD) Already have team: '' @ py_str ev (td_team_no team') @ '' ''
       @ py_str ev (td_team_nm team') @ nl
     @ ''(LINK) Added team: '' @ py_str ev (td_team_no team') @ '' ''
       @ py_str ev (td_team_nm team') @ '' to event: '' @ py_str ev (d_event_cd data) @ nl"

section \<open>Properties of the stateless helpers\<close>

lemma replace_frc_in_str_eq: "replace_frc_in_str s = strip_frc s"
  unfolding replace_frc_in_str_def
  by (induction s rule: strip_frc.induct) auto

lemma strip_frc_length: "length (strip_frc s) \<le> length s"
  by (induction s rule: strip_frc.induct) auto

lemma strip_frc_noop: "\<not> sublist ''frc'' s \<Longrightarrow> strip_frc s = s"
  by (induction s rule: strip_frc.induct) (auto simp: sublist_Cons_right)

lemma strip_frc_shrinks: "sublist ''frc'' s \<Longrightarrow> length (strip_frc s) < length s"
proof (induction s rule: strip_frc.induct)
  case (1 a b c cs)
  show ?case
  proof (cases "[a, b, c] = ''frc''")
    case True
    then show ?thesis using strip_frc_length [of cs] by simp
  next
    case False
    then have "sublist ''frc'' (b # c # cs)"
      using "1.prems" by (auto simp: sublist_Cons_right)
    then show ?thesis using "1.IH"(2) False by auto
  qed
qed (auto simp: sublist_Cons_right)

lemma replace_frc_fixpoint: "replace_frc_in_str s = s \<longleftrightarrow> \<not> sublist ''frc'' s"
  using strip_frc_noop strip_frc_shrinks by (metis less_irrefl replace_frc_in_str_eq)

lemma strip_frc_Cons: "\<not> prefix ''frc'' (a # xs) \<Longrightarrow> strip_frc (a # xs) = a # strip_frc xs"
proof (cases xs)
  case Nil then show ?thesis by simp
next
  case (Cons b ys)
  assume n: "\<not> prefix ''frc'' (a # xs)"
  show ?thesis
  proof (cases ys)
    case Nil with Cons show ?thesis by simp
  next
    case (Cons c zs)
    with \<open>xs = b # ys\<close> n show ?thesis by auto
  qed
qed

lemma prefix_frc_append:
  "prefix ''frc'' (a # u @ ''frc'' @ v) \<longleftrightarrow> prefix ''frc'' (a # u @ ''fr'')"
proof (cases u)
  case Nil then show ?thesis by simp
next
  case (Cons b u')
  then show ?thesis by (cases u') auto
qed

lemma strip_frc_first:
  "\<not> sublist ''frc'' (u @ ''fr'') \<Longrightarrow> strip_frc (u @ ''frc'' @ v) = u @ strip_frc v"
proof (induction u)
  case Nil
  then show ?case by simp
next
  case (Cons a u)
  have 1: "\<not> prefix ''frc'' (a # u @ ''fr'')" and 2: "\<not> sublist ''frc'' (u @ ''fr'')"
    using Cons.prems by (auto simp add: sublist_Cons_right)
  have "\<not> prefix ''frc'' (a # u @ ''frc'' @ v)" using 1 prefix_frc_append by blast
  then have "strip_frc (a # u @ ''frc'' @ v) = a # strip_frc (u @ ''frc'' @ v)"
    by (rule strip_frc_Cons)
  then show ?case using Cons.IH [OF 2] by simp
qed

lemma first_occurrence:
  "sublist ''frc'' s \<Longrightarrow> \<exists>u v. s = u @ ''frc'' @ v \<and> \<not> sublist ''frc'' (u @ ''fr'')"
proof (induction s)
  case Nil
  then show ?case by simp
next
  case (Cons a s)
  show ?case
  proof (cases "prefix ''frc'' (a # s)")
    case True
    then obtain v where "a # s = ''frc'' @ v" by (auto simp: prefix_def)
    moreover have "\<not> sublist ''frc'' ([] @ ''fr'')" by (simp add: sublist_Cons_right)
    ultimately show ?thesis by (metis append_Nil)
  next
    case False
    then have "sublist ''frc'' s" using Cons.prems by (auto simp add: sublist_Cons_right)
    then obtain u v where uv: "s = u @ ''frc'' @ v" "\<not> sublist ''frc'' (u @ ''fr'')"
      using Cons.IH by blast
    have "\<not> prefix ''frc'' (a # u @ ''fr'')" using False uv(1) prefix_frc_append by blast
    then have "\<not> sublist ''frc'' ((a # u) @ ''fr'')"
      using uv(2) by (auto simp add: sublist_Cons_right)
    moreover have "a # s = (a # u) @ ''frc'' @ v" using uv(1) by simp
    ultimately show ?thesis by blast
  qed
qed

lemma replace_frc_unique:
  assumes noop: "\<And>s. \<not> sublist ''frc'' s \<Longrightarrow> f s = s"
    and first: "\<And>u v. \<not> sublist ''frc'' (u @ ''fr'') \<Longrightarrow> f (u @ ''frc'' @ v) = u @ f v"
  shows "f s = replace_frc_in_str s"
proof (induction s rule: length_induct)
  case (1 s)
  show ?case
  proof (cases "sublist ''frc'' s")
    case False
    then show ?thesis using noop strip_frc_noop by (simp add: replace_frc_in_str_eq)
  next
    case True
    then obtain u v where uv: "s = u @ ''frc'' @ v" "\<not> sublist ''frc'' (u @ ''fr'')"
      using first_occurrence by blast
    then have "length v < length s" by simp
    then have "f v = replace_frc_in_str v" using 1 by blast
    then show ?thesis using uv first [OF uv(2)] strip_frc_first [OF uv(2)]
      by (simp add: replace_frc_in_str_eq)
  qed
qed

text \<open>
  C7 (as amended). \<^verbatim>\<open>replace_frc_in_str("frc3492")\<close> and \<^verbatim>\<open>replace_frc_in_str("3492")\<close> are
  both \<^verbatim>\<open>"3492"\<close>, and \<^verbatim>\<open>"frcfrc3492"\<close> is mapped to \<^verbatim>\<open>"3492"\<close> as well. The function removes
  every occurrence of \<^verbatim>\<open>"frc"\<close> that one scan from the left finds, wherever it stands: a
  string without \<^verbatim>\<open>"frc"\<close> is returned unchanged, and in a string \<open>u + "frc" + v\<close> whose
  first occurrence is the one shown (none begins inside \<open>u\<close>) that occurrence is dropped and
  the scan goes on in \<open>v\<close>. These two equations determine the function (lemma
  \<open>replace_frc_unique\<close>). Hence it leaves a string unchanged exactly when the string does
  not contain \<^verbatim>\<open>"frc"\<close>, and applying it twice equals applying it once exactly when the first
  result contains no \<^verbatim>\<open>"frc"\<close>; in particular, for a string \<open>s\<close> without \<^verbatim>\<open>"frc"\<close> the key
  \<^verbatim>\<open>"frc" + s\<close> is mapped to \<open>s\<close>, and a second application changes nothing.
\<close>

theorem replace_frc_in_str_spec:
  "replace_frc_in_str ''frc3492'' = ''3492'' \<and> replace_frc_in_str ''3492'' = ''3492'' \<and>
   replace_frc_in_str ''frcfrc3492'' = ''3492'' \<and>
   (\<forall>s. \<not> sublist ''frc'' s \<longrightarrow> replace_frc_in_str s = s) \<and>
   (\<forall>u v. \<not> sublist ''frc'' (u @ ''fr'') \<longrightarrow>
      replace_frc_in_str (u @ ''frc'' @ v) = u @ replace_frc_in_str v) \<and>
   (\<forall>s. (replace_frc_in_str s = s \<longleftrightarrow> \<not> sublist ''frc'' s) \<and>
        (replace_frc_in_str (replace_frc_in_str s) = replace_frc_in_str s
           \<longleftrightarrow> \<not> sublist ''frc'' (replace_frc_in_str s)) \<and>
        (\<not> sublist ''frc'' s \<longrightarrow> replace_frc_in_str (''frc'' @ s) = s \<and>
           replace_frc_in_str (replace_frc_in_str (''frc'' @ s)) =
             replace_frc_in_str (''frc'' @ s)))"
proof -
  have a: "replace_frc_in_str ''frc3492'' = ''3492''" "replace_frc_in_str ''3492'' = ''3492''"
    "replace_frc_in_str ''frcfrc3492'' = ''3492''"
    by (simp_all add: replace_frc_in_str_eq)
  have b: "replace_frc_in_str (''frc'' @ s) = s" if "\<not> sublist ''frc'' s" for s
    using that replace_frc_fixpoint [of s] by (simp add: replace_frc_in_str_eq)
  have c: "replace_frc_in_str (u @ ''frc'' @ v) = u @ replace_frc_in_str v"
    if "\<not> sublist ''frc'' (u @ ''fr'')" for u v
    using strip_frc_first [OF that] by (simp add: replace_frc_in_str_eq)
  show ?thesis using a b c replace_frc_fixpoint by auto
qed

theorem replace_frc_in_str_spec_witness:
  "\<not> sublist ''frc'' ''3492'' \<and> replace_frc_in_str ''3492'' = ''3492'' \<and>
   \<not> sublist ''frc'' (''3'' @ ''fr'') \<and>
   replace_frc_in_str (''3'' @ ''frc'' @ ''4frc92'') = ''3'' @ replace_frc_in_str ''4frc92'' \<and>
   replace_frc_in_str (''frc'' @ ''3492'') = ''3492'' \<and>
   replace_frc_in_str (replace_frc_in_str (''frc'' @ ''3492'')) =
     replace_frc_in_str (''frc'' @ ''3492'')"
proof -
  have 1: "\<not> sublist ''frc'' ''3492''" and 2: "\<not> sublist ''frc'' (''3'' @ ''fr'')"
    by (simp_all add: sublist_Cons_right)
  note t = replace_frc_in_str_spec
  have 3: "replace_frc_in_str ''3492'' = ''3492''"
    using t 1 by blast
  have 4: "replace_frc_in_str (''3'' @ ''frc'' @ ''4frc92'') = ''3'' @ replace_frc_in_str ''4frc92''"
    using t 2 by blast
  have 5: "replace_frc_in_str (''frc'' @ ''3492'') = ''3492'' \<and>
     replace_frc_in_str (replace_frc_in_str (''frc'' @ ''3492'')) =
       replace_frc_in_str (''frc'' @ ''3492'')"
    using t 1 by blast
  show ?thesis using 1 2 3 4 5 by blast
qed

text \<open>
  C7 as stated fails twice: \<^verbatim>\<open>"ffrcrc"\<close> becomes \<^verbatim>\<open>"frc"\<close> and then the empty string, so the
  function is not idempotent; and \<^verbatim>\<open>"3frc"\<close>, which does not start with \<^verbatim>\<open>"frc"\<close>, becomes
  \<^verbatim>\<open>"3"\<close>.
\<close>

theorem replace_frc_in_str_counterexample:
  "replace_frc_in_str (replace_frc_in_str ''ffrcrc'') \<noteq> replace_frc_in_str ''ffrcrc'' \<and>
   \<not> prefix ''frc'' ''3frc'' \<and> replace_frc_in_str ''3frc'' \<noteq> ''3frc''"
  by (simp add: replace_frc_in_str_eq)

section \<open>Webhook verification\<close>




















text \<open>
  C9. When the request has no \<^verbatim>\<open>HTTP_X_TBA_HMAC\<close> header, \<^verbatim>\<open>verify_tba_webhook_call\<close>
  returns false: the digest is a string and the header's default is \<^verbatim>\<open>None\<close>. (The function
  is total here: the body of a request is parsed JSON, which \<^verbatim>\<open>json.dumps\<close> serializes.)
\<close>

theorem verify_missing_header:
  "req_META request ''HTTP_X_TBA_HMAC'' = None \<Longrightarrow> verify_tba_webhook_call ev request = False"
  by (simp add: verify_tba_webhook_call_def Let_def)

theorem verify_missing_header_witness:
  "req_META \<lparr>req_data = JObj [(''message_type'', JStr ''match_score'')], req_META = Map.empty\<rparr>
      ''HTTP_X_TBA_HMAC'' = None \<and>
   verify_tba_webhook_call sample_env
     \<lparr>req_data = JObj [(''message_type'', JStr ''match_score'')], req_META = Map.empty\<rparr> = False"
  using verify_missing_header
    [of "\<lparr>req_data = JObj [(''message_type'', JStr ''match_score'')], req_META = Map.empty\<rparr>"
        sample_env]
  by simp

section \<open>Messages\<close>

declare show_nat.simps [simp del]

lemma bind_err_simps [simp]:
  "bind_err (Inl e) f = Inl e"
  "bind_err (Inr v) f = f v"
  by (simp_all add: bind_err_def)

text \<open>
  C8 (as amended). For a message that carries \<^verbatim>\<open>message_type\<close> and \<^verbatim>\<open>message_data\<close>,
  \<^verbatim>\<open>save_message\<close> adds one row, with that type and with \<^verbatim>\<open>str(message["message_data"])\<close> cut
  to its first 4000 characters: a longer text is stored with exactly 4000 characters, a text
  of at most 4000 characters is stored unchanged.
\<close>

theorem save_message_truncates:
  assumes "getitem_str message' ''message_type'' = Inr mt"
    and "getitem_str message' ''message_data'' = Inr md"
  shows "\<exists>msg. save_message ev message' s =
           (Inr (length (messages s), msg), s\<lparr>messages := messages s @ [msg]\<rparr>) \<and>
         message_type msg = mt \<and>
         (4000 < length (py_str ev md) \<longrightarrow>
            message_data msg = take 4000 (py_str ev md) \<and> length (message_data msg) = 4000) \<and>
         (length (py_str ev md) \<le> 4000 \<longrightarrow> message_data msg = py_str ev md)"
  using assms by (simp add: save_message_def Let_def)

theorem save_message_truncates_witness:
  "getitem_str long_message ''message_type'' = Inr (JStr ''test'') \<and>
   getitem_str long_message ''message_data'' = Inr (JStr (replicate 5000 (CHR ''x''))) \<and>
   4000 < length (py_str sample_env (JStr (replicate 5000 (CHR ''x'')))) \<and>
   (\<exists>msg. save_message sample_env long_message fixture_db =
            (Inr (length (messages fixture_db), msg),
             fixture_db\<lparr>messages := messages fixture_db @ [msg]\<rparr>) \<and>
          length (message_data msg) = 4000) \<and>
   getitem_str short_message ''message_type'' = Inr (JStr ''match_score'') \<and>
   getitem_str short_message ''message_data'' = Inr (JStr ''2024pahat'') \<and>
   length (py_str sample_env (JStr ''2024pahat'')) \<le> 4000 \<and>
   (\<exists>msg. save_message sample_env short_message fixture_db =
            (Inr (length (messages fixture_db), msg),
             fixture_db\<lparr>messages := messages fixture_db @ [msg]\<rparr>) \<and>
          message_data msg = ''2024pahat'')"
proof -
  have a: "getitem_str long_message ''message_type'' = Inr (JStr ''test'')"
    "getitem_str long_message ''message_data'' = Inr (JStr (replicate 5000 (CHR ''x'')))"
    by (simp_all add: long_message_def)
  have b: "getitem_str short_message ''message_type'' = Inr (JStr ''match_score'')"
    "getitem_str short_message ''message_data'' = Inr (JStr ''2024pahat'')"
    by (simp_all add: short_message_def)
  have c: "py_str sample_env (JStr x) = x" for x
    by (simp add: sample_env_def sample_str_def)
  show ?thesis
    using save_message_truncates [OF a, of sample_env fixture_db]
      save_message_truncates [OF b, of sample_env fixture_db] a b
    by (auto simp: c)
qed

text \<open>
  C8 as stated fails for a message without \<^verbatim>\<open>message_type\<close>: the string form of its
  \<^verbatim>\<open>message_data\<close> has 5000 characters, and \<^verbatim>\<open>save_message\<close> raises
  \<^verbatim>\<open>KeyError('message_type')\<close> and stores nothing.
\<close>

theorem save_message_counterexample:
  "getitem_str untyped_message ''message_data'' = Inr (JStr (replicate 5000 (CHR ''x''))) \<and>
   length (py_str sample_env (JStr (replicate 5000 (CHR ''x'')))) = 5000 \<and>
   save_message sample_env untyped_message fixture_db =
     (Inl (KeyError (JStr ''message_type'')), fixture_db)"
  by (simp add: untyped_message_def save_message_def sample_env_def sample_str_def)

section \<open>Fetching an event\<close>

lemma get_tba_event_error:
  assumes "http_get_json ev (tba_url @ ''/event/'' @ cd) (TBA_KEY ev) = Inr (JObj kvs)"
    and "map_of kvs ''Error'' = Some err" and "err \<noteq> JNull"
  shows "get_tba_event ev cd = Inl (Exception err)"
  using assms by (simp add: get_tba_event_def)

lemma sync_event_error:
  assumes "get_tba_event ev cd = Inl e"
  shows "sync_event ev season' cd s = (Inl e, s)"
  using assms by (simp add: sync_event_def)

lemma dict_get_obj:
  "dict_get (JObj kvs) k d = Inr (case map_of kvs k of None \<Rightarrow> d | Some v \<Rightarrow> v)"
  by (simp split: option.splits)

text \<open>
  C6 (as amended). The response is a JSON object. When it has a non-null \<^verbatim>\<open>Error\<close> field,
  \<^verbatim>\<open>get_tba_event\<close> raises \<^verbatim>\<open>Exception\<close> of that value, whose text is \<^verbatim>\<open>str\<close> of the value, and
  a \<^verbatim>\<open>sync_event\<close> that called it leaves every local record as it was. When it has no such
  field, \<^verbatim>\<open>get_tba_event\<close> returns the mapped event provided the keys \<^verbatim>\<open>name\<close>,
  \<^verbatim>\<open>start_date\<close>, \<^verbatim>\<open>end_date\<close>, \<^verbatim>\<open>key\<close> and \<^verbatim>\<open>webcasts\<close> are present, both dates convert
  in the time zone (the response's, or America/New_York when it is absent or null) and
  \<^verbatim>\<open>webcasts\<close> is an empty list or a list whose first element has a \<^verbatim>\<open>channel\<close>; the
  optional fields default to \<^verbatim>\<open>None\<close>.
\<close>

theorem get_tba_event_spec:
  assumes "http_get_json ev (tba_url @ ''/event/'' @ cd) (TBA_KEY ev) = Inr (JObj kvs)"
  shows "(\<forall>err. map_of kvs ''Error'' = Some err \<and> err \<noteq> JNull \<longrightarrow>
            get_tba_event ev cd = Inl (Exception err) \<and>
            exc_text ev (Exception err) = py_str ev err \<and>
            (\<forall>season' s. sync_event ev season' cd s = (Inl (Exception err), s))) \<and>
         (\<forall>name sd ed key w tz st en wc.
            (map_of kvs ''Error'' = None \<or> map_of kvs ''Error'' = Some JNull) \<and>
            map_of kvs ''name'' = Some name \<and>
            map_of kvs ''start_date'' = Some sd \<and>
            map_of kvs ''end_date'' = Some ed \<and>
            map_of kvs ''key'' = Some key \<and>
            map_of kvs ''webcasts'' = Some w \<and>
            (map_of kvs ''timezone'' = Some tz \<and> tz \<noteq> JNull \<or>
             (map_of kvs ''timezone'' = None \<or> map_of kvs ''timezone'' = Some JNull) \<and>
               tz = JStr ''America/New_York'') \<and>
            strptime_astimezone ev sd tz = Inr st \<and>
            strptime_astimezone ev ed tz = Inr en \<and>
            (w = JArr [] \<and> wc = JStr [] \<or>
             (\<exists>w0 ws. w = JArr (w0 # ws) \<and> getitem_str w0 ''channel'' = Inr wc)) \<longrightarrow>
            get_tba_event ev cd =
              Inr \<lparr>d_event_nm = name, d_date_st = st, d_date_end = en, d_event_cd = key,
                   d_event_url = (case map_of kvs ''event_url'' of None \<Rightarrow> JNull | Some v \<Rightarrow> v),
                   d_gmaps_url = (case map_of kvs ''gmaps_url'' of None \<Rightarrow> JNull | Some v \<Rightarrow> v),
                   d_address = (case map_of kvs ''address'' of None \<Rightarrow> JNull | Some v \<Rightarrow> v),
                   d_city = (case map_of kvs ''city'' of None \<Rightarrow> JNull | Some v \<Rightarrow> v),
                   d_state_prov = (case map_of kvs ''state_prov'' of None \<Rightarrow> JNull | Some v \<Rightarrow> v),
                   d_postal_code = (case map_of kvs ''postal_code'' of None \<Rightarrow> JNull | Some v \<Rightarrow> v),
                   d_location_name =
                     (case map_of kvs ''location_name'' of None \<Rightarrow> JNull | Some v \<Rightarrow> v),
                   d_timezone = (case map_of kvs ''timezone'' of
                                   None \<Rightarrow> JStr ''America/New_York'' | Some v \<Rightarrow> v),
                   d_webcast_url = wc\<rparr>)"
proof (intro conjI allI impI)
  fix err assume e: "map_of kvs ''Error'' = Some err \<and> err \<noteq> JNull"
  then show g: "get_tba_event ev cd = Inl (Exception err)"
    using assms get_tba_event_error by blast
  show "exc_text ev (Exception err) = py_str ev err" by (simp add: exc_text_def)
  fix season' s
  show "sync_event ev season' cd s = (Inl (Exception err), s)"
    using g by (rule sync_event_error)
next
  fix name sd ed key w tz st en wc
  assume h: "(map_of kvs ''Error'' = None \<or> map_of kvs ''Error'' = Some JNull) \<and>
            map_of kvs ''name'' = Some name \<and>
            map_of kvs ''start_date'' = Some sd \<and>
            map_of kvs ''end_date'' = Some ed \<and>
            map_of kvs ''key'' = Some key \<and>
            map_of kvs ''webcasts'' = Some w \<and>
            (map_of kvs ''timezone'' = Some tz \<and> tz \<noteq> JNull \<or>
             (map_of kvs ''timezone'' = None \<or> map_of kvs ''timezone'' = Some JNull) \<and>
               tz = JStr ''America/New_York'') \<and>
            strptime_astimezone ev sd tz = Inr st \<and>
            strptime_astimezone ev ed tz = Inr en \<and>
            (w = JArr [] \<and> wc = JStr [] \<or>
             (\<exists>w0 ws. w = JArr (w0 # ws) \<and> getitem_str w0 ''channel'' = Inr wc))"
  have err: "(case map_of kvs ''Error'' of None \<Rightarrow> JNull | Some v \<Rightarrow> v) = JNull"
    using h by auto
  have tz: "(if (case map_of kvs ''timezone'' of None \<Rightarrow> JNull | Some v \<Rightarrow> v) \<noteq> JNull
             then Inr (case map_of kvs ''timezone'' of None \<Rightarrow> JNull | Some v \<Rightarrow> v)
             else Inr (JStr ''America/New_York'')) = (Inr tz :: pyerr + json)"
    using h by auto
  have req: "getitem_str (JObj kvs) ''name'' = Inr name"
    "getitem_str (JObj kvs) ''start_date'' = Inr sd"
    "getitem_str (JObj kvs) ''end_date'' = Inr ed"
    "getitem_str (JObj kvs) ''key'' = Inr key"
    "getitem_str (JObj kvs) ''webcasts'' = Inr w"
    "strptime_astimezone ev sd tz = Inr st" "strptime_astimezone ev ed tz = Inr en"
    using h by auto
  have wc: "bind_err (py_len w) (\<lambda>n. bind_err (if 0 < n
               then bind_err (getitem_idx w 0) (\<lambda>w0. getitem_str w0 ''channel'')
               else Inr (JStr [])) f) = f wc" for f
    using h by auto
  show "get_tba_event ev cd =
              Inr \<lparr>d_event_nm = name, d_date_st = st, d_date_end = en, d_event_cd = key,
                   d_event_url = (case map_of kvs ''event_url'' of None \<Rightarrow> JNull | Some v \<Rightarrow> v),
                   d_gmaps_url = (case map_of kvs ''gmaps_url'' of None \<Rightarrow> JNull | Some v \<Rightarrow> v),
                   d_address = (case map_of kvs ''address'' of None \<Rightarrow> JNull | Some v \<Rightarrow> v),
                   d_city = (case map_of kvs ''city'' of None \<Rightarrow> JNull | Some v \<Rightarrow> v),
                   d_state_prov = (case map_of kvs ''state_prov'' of None \<Rightarrow> JNull | Some v \<Rightarrow> v),
                   d_postal_code = (case map_of kvs ''postal_code'' of None \<Rightarrow> JNull | Some v \<Rightarrow> v),
                   d_location_name =
                     (case map_of kvs ''location_name'' of None \<Rightarrow> JNull | Some v \<Rightarrow> v),
                   d_timezone = (case map_of kvs ''timezone'' of
                                   None \<Rightarrow> JStr ''America/New_York'' | Some v \<Rightarrow> v),
                   d_webcast_url = wc\<rparr>"
    unfolding get_tba_event_def
    by (simp only: assms bind_err_simps err if_False simp_thms tz req wc dict_get_obj)
qed

theorem get_tba_event_spec_witness:
  "http_get_json error_env (tba_url @ ''/event/'' @ ''2024pahat'') (TBA_KEY error_env) =
     Inr (JObj [(''Error'', JStr ''Invalid event key'')]) \<and>
   get_tba_event error_env ''2024pahat'' = Inl (Exception (JStr ''Invalid event key'')) \<and>
   exc_text error_env (Exception (JStr ''Invalid event key'')) = ''Invalid event key'' \<and>
   sync_event error_env 1 ''2024pahat'' roster_db =
     (Inl (Exception (JStr ''Invalid event key'')), roster_db) \<and>
   http_get_json sample_env (tba_url @ ''/event/'' @ ''2024pahat'') (TBA_KEY sample_env) =
     Inr sample_event_json \<and>
   get_tba_event sample_env ''2024pahat'' =
     Inr \<lparr>d_event_nm = JStr ''Hatboro-Horsham'', d_date_st = 1710475200,
          d_date_end = 1710648000, d_event_cd = JStr ''2024pahat'', d_event_url = JNull,
          d_gmaps_url = JNull, d_address = JNull, d_city = JNull, d_state_prov = JNull,
          d_postal_code = JNull, d_location_name = JNull,
          d_timezone = JStr ''America/New_York'', d_webcast_url = JStr []\<rparr>"
proof -
  have a: "http_get_json error_env (tba_url @ ''/event/'' @ ''2024pahat'') (TBA_KEY error_env) =
     Inr (JObj [(''Error'', JStr ''Invalid event key'')])"
    by (simp add: error_env_def)
  have b: "http_get_json sample_env (tba_url @ ''/event/'' @ ''2024pahat'')
      (TBA_KEY sample_env) =
     Inr (JObj [(''key'', JStr ''2024pahat''), (''name'', JStr ''Hatboro-Horsham''),
           (''start_date'', JStr ''2024-03-15''), (''end_date'', JStr ''2024-03-17''),
           (''webcasts'', JArr [])])"
    by (simp add: sample_env_def sample_http_def sample_event_json_def)
  have c: "py_str error_env (JStr x) = x" for x
    by (simp add: error_env_def sample_env_def sample_str_def)
  have d: "strptime_astimezone sample_env (JStr ''2024-03-15'') (JStr ''America/New_York'') = Inr 1710475200"
    "strptime_astimezone sample_env (JStr ''2024-03-17'') (JStr ''America/New_York'') = Inr 1710648000"
    by (simp_all add: sample_env_def sample_strptime_def)
  note e = get_tba_event_spec [OF a, THEN conjunct1, rule_format,
      of "JStr ''Invalid event key''"]
  note f = get_tba_event_spec [OF b, THEN conjunct2, rule_format,
      of "JStr ''Hatboro-Horsham''" "JStr ''2024-03-15''" "JStr ''2024-03-17''"
         "JStr ''2024pahat''" "JArr []" "JStr ''America/New_York''" 1710475200 1710648000
         "JStr []"]
  have g: "get_tba_event sample_env ''2024pahat'' =
     Inr \<lparr>d_event_nm = JStr ''Hatboro-Horsham'', d_date_st = 1710475200,
          d_date_end = 1710648000, d_event_cd = JStr ''2024pahat'', d_event_url = JNull,
          d_gmaps_url = JNull, d_address = JNull, d_city = JNull, d_state_prov = JNull,
          d_postal_code = JNull, d_location_name = JNull,
          d_timezone = JStr ''America/New_York'', d_webcast_url = JStr []\<rparr>"
    using f d by simp
  show ?thesis using a b e g c by (simp add: sample_event_json_def)
qed

text \<open>
  C6 as stated fails for a response without the field: the empty object has no \<^verbatim>\<open>Error\<close>,
  and \<^verbatim>\<open>get_tba_event\<close> raises \<^verbatim>\<open>KeyError('name')\<close> on it.
\<close>

theorem get_tba_event_counterexample:
  "http_get_json empty_env (tba_url @ ''/event/'' @ ''2024pahat'') (TBA_KEY empty_env) =
     Inr (JObj []) \<and>
   dict_get (JObj []) ''Error'' JNull = Inr JNull \<and>
   get_tba_event empty_env ''2024pahat'' = Inl (KeyError (JStr ''name''))"
  by (simp add: empty_env_def get_tba_event_def)

section \<open>Rows and lookups\<close>

lemma matching_set: "set (matching P rows) = {i. i < length rows \<and> P (rows ! i)}"
  by (auto simp: matching_def)


lemma matching_single_unique:
  "matching P rows = [i] \<Longrightarrow> j < length rows \<Longrightarrow> P (rows ! j) \<Longrightarrow> j = i"
  using matching_set [of P rows] by auto

lemma matching_Nil_iff: "matching P rows = [] \<longleftrightarrow> (\<forall>r \<in> set rows. \<not> P r)"
  by (auto simp add: matching_def filter_empty_conv all_set_conv_all_nth)




lemma objects_get_DoesNotExist:
  "objects_get P rows = Inl DoesNotExist \<longleftrightarrow> matching P rows = []"
  by (auto simp: objects_get_def split: list.splits)


section \<open>Saving a match\<close>



lemma match_lookups_frame:
  "events s' = events s \<Longrightarrow> teams s' = teams s \<Longrightarrow> comp_levels s' = comp_levels s \<Longrightarrow>
   match_lookups ev tm s' = match_lookups ev tm s"
  by (simp add: match_lookups_def match_team_def)






lemma team_slots_assign [simp]:
  "team_slots (match_assign f m) =
     map fst [f_red_one f, f_red_two f, f_red_three f, f_blue_one f, f_blue_two f, f_blue_three f]"
  by (simp add: team_slots_def match_assign_def)

lemma team_slots_new [simp]:
  "team_slots (match_new k f) =
     map fst [f_red_one f, f_red_two f, f_red_three f, f_blue_one f, f_blue_two f, f_blue_three f]"
  by (simp add: team_slots_def match_new_def)

lemma match_key_assign [simp]: "match_key (match_assign f m) = match_key m"
  by (simp add: match_assign_def)

lemma match_key_new [simp]: "match_key (match_new k f) = k"
  by (simp add: match_new_def)


lemma sample_env_simps [simp]:
  "http_get_json sample_env = sample_http"
  "py_str sample_env = sample_str"
  "strptime_astimezone sample_env = sample_strptime"
  "fromtimestamp sample_env = sample_fromtimestamp"
  "int_field sample_env = sample_int_field"
  "char_field sample_env = sample_char_field"
  "new_event sample_env = sample_event"
  "TBA_KEY sample_env = ''key''"
  by (simp_all add: sample_env_def)

lemma fixture_db_simps [simp]:
  "events fixture_db = [sample_event]"
  "teams fixture_db =
     [\<lparr>team_no = 3492, team_nm = JStr ''Team'', team_void_ind = ''n''\<rparr>,
      \<lparr>team_no = 3493, team_nm = JStr ''Team'', team_void_ind = ''n''\<rparr>,
      \<lparr>team_no = 3494, team_nm = JStr ''Team'', team_void_ind = ''n''\<rparr>,
      \<lparr>team_no = 3495, team_nm = JStr ''Team'', team_void_ind = ''n''\<rparr>,
      \<lparr>team_no = 3496, team_nm = JStr ''Team'', team_void_ind = ''n''\<rparr>,
      \<lparr>team_no = 3497, team_nm = JStr ''Team'', team_void_ind = ''n''\<rparr>]"
  "event_teams fixture_db = {}"
  "comp_levels fixture_db = [\<lparr>comp_lvl_typ = ''qm'', comp_lvl_typ_nm = JStr ''Qualification'',
                      comp_lvl_void_ind = ''n''\<rparr>]"
  "matches fixture_db = []"
  "messages fixture_db = []"
  by (simp_all add: fixture_db_def)

lemma sample_teams:
  assumes "teams s = teams fixture_db"
  shows "match_team sample_env sample_match_json ''red'' 0 s = Inr (0, teams fixture_db ! 0)"
    "match_team sample_env sample_match_json ''red'' 1 s = Inr (1, teams fixture_db ! 1)"
    "match_team sample_env sample_match_json ''red'' 2 s = Inr (2, teams fixture_db ! 2)"
    "match_team sample_env sample_match_json ''blue'' 0 s = Inr (3, teams fixture_db ! 3)"
    "match_team sample_env sample_match_json ''blue'' 1 s = Inr (4, teams fixture_db ! 4)"
    "match_team sample_env sample_match_json ''blue'' 2 s = Inr (5, teams fixture_db ! 5)"
    "match_team sample_env sample_match_json ''red'' (Suc 0) s = Inr (1, teams fixture_db ! 1)"
    "match_team sample_env sample_match_json ''blue'' (Suc 0) s = Inr (4, teams fixture_db ! 4)"
  using assms
  by (simp_all add: match_team_def sample_match_json_def replace_frc_in_str_eq
      sample_int_field_def objects_get_def matching_def)

lemma sample_lookups:
  assumes "events s = events fixture_db" "teams s = teams fixture_db"
    "comp_levels s = comp_levels fixture_db"
  shows "match_lookups sample_env sample_match_json s = Inr sample_fields"
proof -
  have a: "getitem_str sample_match_json ''event_key'' = Inr (JStr ''2024pahat'')"
    "dict_get sample_match_json ''match_number'' (JInt 0) = Inr (JInt 1)"
    "match_score sample_match_json ''red'' = Inr (JInt 100)"
    "match_score sample_match_json ''blue'' = Inr (JInt 90)"
    "dict_get sample_match_json ''comp_level'' (JStr '' '') = Inr (JStr ''qm'')"
    "getitem_str sample_match_json ''time'' = Inr (JInt 1640000000)"
    "getitem_str sample_match_json ''key'' = Inr (JStr ''2024pahat_qm1'')"
    by (simp_all add: sample_match_json_def match_score_def)
  have b: "objects_get (\<lambda>r. event_cd r = ''2024pahat'') (events s) = Inr (0, sample_event)"
    "objects_get (\<lambda>r. comp_lvl_typ r = ''qm'' \<and> comp_lvl_void_ind r = ''n'') (comp_levels s) =
       Inr (0, \<lparr>comp_lvl_typ = ''qm'', comp_lvl_typ_nm = JStr ''Qualification'',
                           comp_lvl_void_ind = ''n''\<rparr>)"
    using assms by (simp_all add: objects_get_def matching_def sample_event_def)
  show ?thesis
    unfolding match_lookups_def
    by (simp add: a b sample_teams [OF assms(2)] sample_char_field_def
        sample_fromtimestamp_def sample_fields_def)
qed

lemma sample_line: "match_line sample_env sample_fields = sample_match_line"
  by (simp add: match_line_def sample_fields_def sample_match_line_def sample_str_def
      sample_event_def)


lemma sample_assign: "match_assign sample_fields sample_match = sample_match"
  by (simp add: match_assign_def sample_fields_def sample_match_def)


lemma sample_save_update:
  "save_tba_match sample_env sample_match_json (fixture_db\<lparr>matches := [sample_match]\<rparr>) =
     (Inr (''(UPDATE) '' @ sample_match_line), fixture_db\<lparr>matches := [sample_match]\<rparr>)"
  by (simp add: save_tba_match_def sample_lookups sample_line sample_assign
      sample_fields_def [THEN arg_cong, of f_match_key] sample_char_field_def
      objects_get_def matching_def sample_match_def [THEN arg_cong, of match_key])




section \<open>Synchronizing the matches of an event\<close>








end
